theory Spec2Isabelle
  imports Main "HOL-Library.Code_Target_Nat"
begin

section \<open>Values of the plugin framework\<close>

text \<open>
  An attribute value of the plugin framework (\<open>types.String\<close>, \<open>types.Bool\<close>,
  \<open>types.Map\<close>, \<open>types.List\<close>) is null, unknown, or known with a payload.
  The framework's \<open>Equal\<close> on two values of the same type is structural: same state
  and, when known, same payload (for a map: same keys with equal elements). It is
  HOL equality on \<open>tfval\<close>.
\<close>

datatype 'a tfval = Null | Unknown | Known 'a

fun IsNull :: "'a tfval \<Rightarrow> bool" where
  "IsNull Null = True"
| "IsNull _ = False"

text \<open>\<open>ValueString\<close> and \<open>ValueBool\<close> return the zero value for null and unknown.\<close>

fun ValueString :: "string tfval \<Rightarrow> string" where
  "ValueString (Known s) = s"
| "ValueString _ = []"

fun ValueBool :: "bool tfval \<Rightarrow> bool" where
  "ValueBool (Known b) = b"
| "ValueBool _ = False"

definition Equal :: "'a tfval \<Rightarrow> 'a tfval \<Rightarrow> bool" where
  "Equal a b = (a = b)"

section \<open>Errors of the client\<close>

text \<open>
  A Go \<open>error\<close> as the client and the resources produce and inspect it:
  \<^item> \<open>APIError code message detail\<close> is \<open>&APIError{StatusCode, Message, Detail}\<close>,
    returned by \<open>Client.Do\<close> for a response with status 400 or more whose body decodes;
  \<^item> \<open>Wrapped prefix err\<close> is \<open>fmt.Errorf("prefix: %w", err)\<close>;
  \<^item> \<open>AgentTimeout timeout err\<close> is the error of \<open>waitForAgent\<close>,
    \<open>fmt.Errorf("timed out waiting for agent after %s: %w", timeout, err)\<close>;
  \<^item> \<open>ContextCanceled\<close> and \<open>ContextDeadlineExceeded\<close> are the two values of \<open>ctx.Err()\<close>;
  \<^item> \<open>Opaque text\<close> is any other error, which wraps nothing.
\<close>

datatype go_error =
    APIError int string string
  | Wrapped string go_error
  | AgentTimeout int go_error
  | ContextCanceled
  | ContextDeadlineExceeded
  | Opaque string

text \<open>
  \<open>IsNotFound\<close>: \<open>errors.As\<close> walks the chain of wrapped errors to the first
  \<open>*APIError\<close> and the status code of that one is compared with 404.
\<close>

fun IsNotFound :: "go_error \<Rightarrow> bool" where
  "IsNotFound (APIError code msg detail) = (code = 404)"
| "IsNotFound (Wrapped p e) = IsNotFound e"
| "IsNotFound (AgentTimeout t e) = IsNotFound e"
| "IsNotFound _ = False"

section \<open>The deployment record\<close>

record ProjectDeploymentResourceModel =
  ID :: "string tfval"
  EnvironmentID :: "string tfval"
  ProjectID :: "string tfval"
  Pull :: "bool tfval"
  ForceRecreate :: "bool tfval"
  RemoveOrphans :: "bool tfval"
  StopOnDelete :: "bool tfval"
  Triggers :: "(string \<rightharpoonup> string tfval) tfval"
  WaitTimeout :: "string tfval"
  Status :: "string tfval"
  LastDeployedAt :: "string tfval"

subsection \<open>Durations\<close>

text \<open>A \<open>time.Duration\<close> is a count of nanoseconds; a point in time is one too.\<close>

definition Second :: int where
  "Second = 1000000000"

definition Minute :: int where
  "Minute = 60 * Second"

subsection \<open>parseWaitTimeout\<close>

text \<open>
  \<open>time.ParseDuration\<close> belongs to the Go standard library; it is a parameter
  \<open>pd\<close> of the model, returning the error or the duration.
\<close>

definition parseWaitTimeout ::
  "(string \<Rightarrow> go_error + int) \<Rightarrow> ProjectDeploymentResourceModel \<Rightarrow> int" where
  "parseWaitTimeout pd data =
     (let timeoutStr = ValueString (WaitTimeout data) in
      if timeoutStr = [] then 2 * Minute
      else (case pd timeoutStr of
              Inl err \<Rightarrow> 2 * Minute
            | Inr d \<Rightarrow> d))"

subsection \<open>ImportState\<close>

text \<open>
  \<open>strings.SplitN(s, "/", 2)\<close>: the string itself when it has no separator,
  otherwise the text before the first separator and the whole text after it.
\<close>

definition not_slash :: "char \<Rightarrow> bool" where
  "not_slash c = (c \<noteq> CHR ''/'')"

definition SplitN_slash_2 :: "string \<Rightarrow> string list" where
  "SplitN_slash_2 s =
     (if CHR ''/'' \<in> set s
      then [takeWhile not_slash s, tl (dropWhile not_slash s)]
      else [s])"

record import_attrs =
  import_id :: string
  import_environment_id :: string
  import_project_id :: string

text \<open>
  The result is the error diagnostic (summary and detail) or the three attributes
  written to the state. Go's \<open>||\<close> does not read \<open>parts[1]\<close> when the length is not 2.
\<close>

definition ImportState :: "string \<Rightarrow> (string \<times> string) + import_attrs" where
  "ImportState req_id =
     (let parts = SplitN_slash_2 req_id in
      if length parts \<noteq> 2 \<or> parts ! 0 = [] \<or> parts ! 1 = []
      then Inl (''Invalid import ID'',
                ''Expected format: environment_id/project_id, got: '' @ req_id)
      else Inr \<lparr>import_id = req_id,
                import_environment_id = parts ! 0,
                import_project_id = parts ! 1\<rparr>)"

text \<open>The id that \<open>Create\<close> stores: \<open>fmt.Sprintf("%s/%s", environment, project)\<close>.\<close>

definition composite_id :: "ProjectDeploymentResourceModel \<Rightarrow> string" where
  "composite_id data =
     ValueString (EnvironmentID data) @ ''/'' @ ValueString (ProjectID data)"

section \<open>The backend as the operations see it\<close>

text \<open>
  The structs of the client that the operations read.
\<close>

record ProjectService =
  ProjectService_Name :: string
  ProjectService_Status :: string
  ProjectService_Image :: string

record Project =
  Project_ID :: string
  Project_Name :: string
  Project_Status :: string
  Project_Path :: string
  Project_Services :: "ProjectService list"

record ProjectDeployRequest =
  Req_Pull :: bool
  Req_ForceRecreate :: bool
  Req_RemoveOrphans :: bool

record ContainerPort =
  HostPort :: int
  ContainerPort :: int
  Protocol :: string

record ContainerDetail =
  ContainerDetail_ID :: string
  ContainerDetail_Name :: string
  ContainerDetail_Image :: string
  ContainerDetail_Status :: string
  ContainerDetail_Health :: string
  ContainerDetail_Ports :: "ContainerPort list"

text \<open>
  A request sent by an environment-scoped client: the environment id of the client,
  the project id, and the body. \<open>DeployProject\<close> posts to \<open>/up\<close>,
  \<open>RedeployProject\<close> to \<open>/redeploy\<close>, \<open>StopProject\<close> to \<open>/down\<close>.
\<close>

datatype api_call =
    GetProjectCall string string
  | DeployProjectCall string string ProjectDeployRequest
  | RedeployProjectCall string string ProjectDeployRequest
  | StopProjectCall string string
  | GetProjectContainersCall string string

text \<open>
  What the world outside answers during one operation:
  \<^item> \<open>probe_err k\<close> is the error of the \<open>k\<close>-th \<open>GetProject\<close> that \<open>waitForAgent\<close>
    issues (\<open>None\<close> is Go's \<open>nil\<close>), and \<open>probe_dur k\<close> the time that call takes;
  \<^item> \<open>ctx_done\<close> is the instant at which \<open>ctx.Done()\<close> is closed, with the value of
    \<open>ctx.Err()\<close> from then on (\<open>None\<close>: the context is never cancelled);
  \<^item> \<open>deploy_err\<close>, \<open>redeploy_err\<close>, \<open>stop_err\<close> are the errors of the three
    posts, \<open>project_resp\<close> and \<open>containers_resp\<close> the results of the status
    \<open>GetProject\<close> and of \<open>GetProjectContainers\<close>;
  \<^item> \<open>timestamp\<close> is \<open>time.Now().UTC().Format(time.RFC3339)\<close> when the state is written.
\<close>

record world =
  probe_err :: "nat \<Rightarrow> go_error option"
  probe_dur :: "nat \<Rightarrow> nat"
  ctx_done :: "(int \<times> go_error) option"
  deploy_err :: "go_error option"
  redeploy_err :: "go_error option"
  stop_err :: "go_error option"
  project_resp :: "go_error + Project"
  containers_resp :: "go_error + ContainerDetail list"
  timestamp :: string

text \<open>
  What an operation leaves behind: the error diagnostics (summary, and the error whose
  \<open>Error()\<close> text is the detail), the value given to \<open>resp.State.Set\<close> when that
  line is reached, and the requests sent, oldest first.
\<close>

record 'st op_result =
  diagnostics :: "(string \<times> go_error) list"
  new_state :: "'st option"
  calls :: "api_call list"

section \<open>The plan modifier of \<open>last_deployed_at\<close>\<close>

text \<open>\<open>GetAttribute\<close> at a root path, by the \<open>tfsdk\<close> name of the attribute.\<close>

definition GetAttributeBool :: "ProjectDeploymentResourceModel \<Rightarrow> string \<Rightarrow> bool tfval" where
  "GetAttributeBool m attr =
     (if attr = ''pull'' then Pull m
      else if attr = ''force_recreate'' then ForceRecreate m
      else if attr = ''remove_orphans'' then RemoveOrphans m
      else if attr = ''stop_on_delete'' then StopOnDelete m
      else Null)"

record StringRequest =
  PlanValue :: "string tfval"
  StateValue :: "string tfval"
  Plan :: ProjectDeploymentResourceModel
  State :: ProjectDeploymentResourceModel

text \<open>The loop over the boolean options, leaving at the first one that differs.\<close>

fun bool_options_loop ::
  "string list \<Rightarrow> ProjectDeploymentResourceModel \<Rightarrow> ProjectDeploymentResourceModel \<Rightarrow>
   bool \<Rightarrow> bool" where
  "bool_options_loop [] plan state changed = changed"
| "bool_options_loop (attr # rest) plan state changed =
     (if \<not> Equal (GetAttributeBool plan attr) (GetAttributeBool state attr)
      then True
      else bool_options_loop rest plan state changed)"

definition attributes_changed ::
  "ProjectDeploymentResourceModel \<Rightarrow> ProjectDeploymentResourceModel \<Rightarrow> bool" where
  "attributes_changed plan state =
     (let changed = False;
          changed = (if \<not> Equal (Triggers plan) (Triggers state) then True else changed)
      in bool_options_loop [''pull'', ''force_recreate'', ''remove_orphans''] plan state changed)"

text \<open>
  The result is \<open>resp.PlanValue\<close>, which starts as the plan value of the request
  and stays so when the function returns early.
\<close>

definition PlanModifyString :: "StringRequest \<Rightarrow> string tfval" where
  "PlanModifyString req =
     (if IsNull (StateValue req) then PlanValue req
      else if attributes_changed (Plan req) (State req) then Unknown
      else StateValue req)"

section \<open>Waiting for the agent\<close>

text \<open>The update of \<open>backoff\<close> at the end of a round.\<close>

definition next_backoff :: "int \<Rightarrow> int" where
  "next_backoff b =
     (if b < 30 * Second
      then (let b2 = b * 2 in if b2 > 30 * Second then 30 * Second else b2)
      else b)"

text \<open>
  The \<open>select\<close> between \<open>ctx.Done()\<close> and \<open>time.After(backoff)\<close>, entered at time
  \<open>t\<close>: the context wins when it is closed before the timer fires, and then the
  function goes on at once (at \<open>t\<close> when the context was closed already, else at the
  instant of closing); otherwise the timer wins at \<open>t + backoff\<close>. When both are
  ready at the same instant Go takes either one; the model takes the timer.
\<close>

datatype select_result = CtxDone int go_error | TimerFired int

definition select_sleep :: "(int \<times> go_error) option \<Rightarrow> int \<Rightarrow> int \<Rightarrow> select_result" where
  "select_sleep done t b =
     (case done of
        None \<Rightarrow> TimerFired (t + b)
      | Some (c, e) \<Rightarrow> if c < t + b then CtxDone (max t c) e else TimerFired (t + b))"

text \<open>
  The variables of the loop (\<open>now\<close> is the clock, \<open>backoff\<close> the local variable),
  with two observations added: how many probes were issued and which sleeps were
  completed, oldest first.
\<close>

record wait_state =
  now :: int
  backoff :: int
  probes :: nat
  slept :: "int list"

text \<open>
  The returned error (\<open>None\<close> is \<open>nil\<close>), the time of the return, the number of
  probes issued and the sleeps completed.
\<close>

record wait_outcome =
  result :: "go_error option"
  finished :: int
  calls_made :: nat
  sleeps :: "int list"

definition returning :: "wait_state \<Rightarrow> go_error option \<Rightarrow> int \<Rightarrow> wait_outcome" where
  "returning s r t =
     \<lparr>result = r, finished = t, calls_made = Suc (probes s), sleeps = slept s\<rparr>"

definition after_sleep :: "wait_state \<Rightarrow> int \<Rightarrow> wait_state" where
  "after_sleep s t =
     \<lparr>now = t, backoff = next_backoff (backoff s), probes = Suc (probes s),
      slept = slept s @ [backoff s]\<rparr>"

text \<open>
  The \<open>for\<close> loop. One round: the probe, which takes its time; \<open>nil\<close> returns
  \<open>nil\<close>; a clock after the deadline returns the wrapped error; otherwise the
  \<open>select\<close>, and the next round with the new backoff. The loop has no bound of its
  own, so the function is partial: \<open>None\<close> is a loop that never returns.
\<close>

partial_function (option) waitLoop ::
  "world \<Rightarrow> int \<Rightarrow> int \<Rightarrow> wait_state \<Rightarrow> wait_outcome option" where
  "waitLoop w timeout deadline s =
     (let t = now s + int (probe_dur w (probes s)) in
      case probe_err w (probes s) of
        None \<Rightarrow> Some (returning s None t)
      | Some err \<Rightarrow>
          if t > deadline then Some (returning s (Some (AgentTimeout timeout err)) t)
          else (case select_sleep (ctx_done w) t (backoff s) of
                  CtxDone t' e \<Rightarrow> Some (returning s (Some e) t')
                | TimerFired t' \<Rightarrow> waitLoop w timeout deadline (after_sleep s t')))"

declare waitLoop.simps [code]

text \<open>\<open>start\<close> is \<open>time.Now()\<close> on entry.\<close>

definition waitForAgent :: "world \<Rightarrow> int \<Rightarrow> int \<Rightarrow> wait_outcome option" where
  "waitForAgent w timeout start =
     waitLoop w timeout (start + timeout)
       \<lparr>now = start, backoff = 5 * Second, probes = 0, slept = []\<rparr>"

section \<open>Create, Update and Delete of the deployment\<close>

definition deployReq :: "ProjectDeploymentResourceModel \<Rightarrow> ProjectDeployRequest" where
  "deployReq data =
     \<lparr>Req_Pull = ValueBool (Pull data),
      Req_ForceRecreate = ValueBool (ForceRecreate data),
      Req_RemoveOrphans = ValueBool (RemoveOrphans data)\<rparr>"

text \<open>
  \<open>Create\<close>: wait for the agent, post to \<open>/up\<close>, read the status, write the state.
  Every probe of the wait is a \<open>GetProject\<close> request. Here and in the other
  operations the plan, state or configuration is taken to decode into the model without
  a diagnostic, and logging is left out.
\<close>

definition Create ::
  "(string \<Rightarrow> go_error + int) \<Rightarrow> world \<Rightarrow> int \<Rightarrow> ProjectDeploymentResourceModel \<Rightarrow>
   ProjectDeploymentResourceModel op_result option" where
  "Create pd w start data =
     (let env = ValueString (EnvironmentID data);
          proj = ValueString (ProjectID data);
          timeout = parseWaitTimeout pd data
      in case waitForAgent w timeout start of
           None \<Rightarrow> None
         | Some out \<Rightarrow>
             Some
              (let sent = replicate (calls_made out) (GetProjectCall env proj) in
               case result out of
                 Some err \<Rightarrow>
                   \<lparr>diagnostics = [(''Agent not reachable'', err)], new_state = None,
                    calls = sent\<rparr>
               | None \<Rightarrow>
                   (let sent = sent @ [DeployProjectCall env proj (deployReq data)] in
                    case deploy_err w of
                      Some err \<Rightarrow>
                        \<lparr>diagnostics = [(''Failed to deploy project'', err)],
                         new_state = None, calls = sent\<rparr>
                    | None \<Rightarrow>
                        (let sent = sent @ [GetProjectCall env proj] in
                         case project_resp w of
                           Inl err \<Rightarrow>
                             \<lparr>diagnostics = [(''Failed to get project status'', err)],
                              new_state = None, calls = sent\<rparr>
                         | Inr project \<Rightarrow>
                             \<lparr>diagnostics = [],
                              new_state = Some
                                (data\<lparr>ID := Known (composite_id data),
                                      Status := Known (Project_Status project),
                                      LastDeployedAt := Known (timestamp w)\<rparr>),
                              calls = sent\<rparr>))))"

text \<open>\<open>Update\<close> reads the plan and the prior state, and uses the plan only.\<close>

definition Update ::
  "world \<Rightarrow> ProjectDeploymentResourceModel \<Rightarrow> ProjectDeploymentResourceModel \<Rightarrow>
   ProjectDeploymentResourceModel op_result" where
  "Update w data state =
     (let env = ValueString (EnvironmentID data);
          proj = ValueString (ProjectID data);
          sent = [RedeployProjectCall env proj (deployReq data)]
      in case redeploy_err w of
           Some err \<Rightarrow>
             \<lparr>diagnostics = [(''Failed to redeploy project'', err)], new_state = None,
              calls = sent\<rparr>
         | None \<Rightarrow>
             (let sent = sent @ [GetProjectCall env proj] in
              case project_resp w of
                Inl err \<Rightarrow>
                  \<lparr>diagnostics = [(''Failed to get project status'', err)],
                   new_state = None, calls = sent\<rparr>
              | Inr project \<Rightarrow>
                  \<lparr>diagnostics = [],
                   new_state = Some
                     (data\<lparr>Status := Known (Project_Status project),
                           LastDeployedAt := Known (timestamp w)\<rparr>),
                   calls = sent\<rparr>))"

text \<open>
  \<open>Delete\<close> writes no state; the framework forgets the record when the operation
  leaves no error diagnostic.
\<close>

definition Delete ::
  "world \<Rightarrow> ProjectDeploymentResourceModel \<Rightarrow> ProjectDeploymentResourceModel op_result" where
  "Delete w data =
     (if ValueBool (StopOnDelete data)
      then (let env = ValueString (EnvironmentID data);
                proj = ValueString (ProjectID data);
                sent = [StopProjectCall env proj]
            in case stop_err w of
                 Some err \<Rightarrow>
                   if \<not> IsNotFound err
                   then \<lparr>diagnostics = [(''Failed to stop project'', err)],
                         new_state = None, calls = sent\<rparr>
                   else \<lparr>diagnostics = [], new_state = None, calls = sent\<rparr>
               | None \<Rightarrow> \<lparr>diagnostics = [], new_state = None, calls = sent\<rparr>)
      else \<lparr>diagnostics = [], new_state = None, calls = []\<rparr>)"

section \<open>Reading the project status\<close>

record port_object =
  host_port :: "int tfval"
  container_port :: "int tfval"
  protocol :: "string tfval"

record container_object =
  obj_id :: "string tfval"
  obj_name :: "string tfval"
  obj_image :: "string tfval"
  obj_status :: "string tfval"
  obj_health :: "string tfval"
  obj_ports :: "port_object list tfval"

record ProjectStatusDataSourceModel =
  DS_EnvironmentID :: "string tfval"
  DS_ProjectID :: "string tfval"
  DS_Name :: "string tfval"
  DS_Status :: "string tfval"
  DS_Path :: "string tfval"
  DS_Containers :: "container_object list tfval"

text \<open>
  The object built for a service in the fallback, and the one built for a container
  of the detailed list. \<open>types.ListValue\<close> and \<open>types.ObjectValue\<close> report no
  diagnostic for values of the declared types, as all values here are.
\<close>

definition service_object :: "ProjectService \<Rightarrow> container_object" where
  "service_object svc =
     \<lparr>obj_id = Known [],
      obj_name = Known (ProjectService_Name svc),
      obj_image = Known (ProjectService_Image svc),
      obj_status = Known (ProjectService_Status svc),
      obj_health = Known [],
      obj_ports = Known []\<rparr>"

definition port_value :: "ContainerPort \<Rightarrow> port_object" where
  "port_value p =
     \<lparr>host_port = Known (HostPort p),
      container_port = Known (ContainerPort p),
      protocol = Known (Protocol p)\<rparr>"

definition detail_object :: "ContainerDetail \<Rightarrow> container_object" where
  "detail_object c =
     \<lparr>obj_id = Known (ContainerDetail_ID c),
      obj_name = Known (ContainerDetail_Name c),
      obj_image = (if ContainerDetail_Image c \<noteq> [] then Known (ContainerDetail_Image c)
                   else Known []),
      obj_status = Known (ContainerDetail_Status c),
      obj_health = (if ContainerDetail_Health c \<noteq> [] then Known (ContainerDetail_Health c)
                    else Known []),
      obj_ports = (if length (ContainerDetail_Ports c) > 0
                   then Known (map port_value (ContainerDetail_Ports c))
                   else Known [])\<rparr>"

definition Read ::
  "world \<Rightarrow> ProjectStatusDataSourceModel \<Rightarrow> ProjectStatusDataSourceModel op_result" where
  "Read w data =
     (let env = ValueString (DS_EnvironmentID data);
          proj = ValueString (DS_ProjectID data);
          sent = [GetProjectCall env proj]
      in case project_resp w of
           Inl err \<Rightarrow>
             \<lparr>diagnostics = [(''Failed to read project status'', err)], new_state = None,
              calls = sent\<rparr>
         | Inr project \<Rightarrow>
             (let data = data\<lparr>DS_Name := Known (Project_Name project),
                              DS_Status := Known (Project_Status project),
                              DS_Path := (if Project_Path project \<noteq> []
                                          then Known (Project_Path project) else Null)\<rparr>;
                  sent = sent @ [GetProjectContainersCall env proj]
              in case containers_resp w of
                   Inl err \<Rightarrow>
                     \<lparr>diagnostics = [],
                      new_state = Some
                        (data\<lparr>DS_Containers :=
                           (if length (Project_Services project) > 0
                            then Known (map service_object (Project_Services project))
                            else Null)\<rparr>),
                      calls = sent\<rparr>
                 | Inr containers \<Rightarrow>
                     \<lparr>diagnostics = [],
                      new_state = Some
                        (data\<lparr>DS_Containers :=
                           (if length containers > 0
                            then Known (map detail_object containers)
                            else Null)\<rparr>),
                      calls = sent\<rparr>))"

section \<open>The timetable of a wait\<close>

text \<open>
  The backoff as the specification words it: 5 seconds at first, doubled each round,
  capped at 30 seconds.
\<close>

definition backoff_sequence :: "nat \<Rightarrow> int" where
  "backoff_sequence k = min (5 * 2 ^ k) 30 * Second"

text \<open>
  When no earlier round returned, the \<open>k\<close>-th probe starts at \<open>probe_start k\<close> and
  is back at \<open>probe_end k\<close>.
\<close>

fun probe_start :: "world \<Rightarrow> int \<Rightarrow> nat \<Rightarrow> int" where
  "probe_start w start 0 = start"
| "probe_start w start (Suc k) =
     probe_start w start k + int (probe_dur w k) + backoff_sequence k"

definition probe_end :: "world \<Rightarrow> int \<Rightarrow> nat \<Rightarrow> int" where
  "probe_end w start k = probe_start w start k + int (probe_dur w k)"

text \<open>A state of the loop that is on this timetable, and what every run ends with.\<close>

definition on_schedule :: "world \<Rightarrow> int \<Rightarrow> wait_state \<Rightarrow> bool" where
  "on_schedule w start s \<longleftrightarrow>
     now s = probe_start w start (probes s) \<and>
     backoff s = backoff_sequence (probes s) \<and>
     slept s = map backoff_sequence [0..<probes s]"

definition wait_post :: "world \<Rightarrow> int \<Rightarrow> int \<Rightarrow> nat \<Rightarrow> wait_outcome \<Rightarrow> bool" where
  "wait_post w timeout start k0 out \<longleftrightarrow>
     k0 < calls_made out \<and>
     sleeps out = map backoff_sequence [0..<calls_made out - 1] \<and>
     (\<forall>i. k0 \<le> i \<and> i < calls_made out - 1 \<longrightarrow>
        probe_err w i \<noteq> None \<and> probe_end w start i \<le> start + timeout) \<and>
     (case probe_err w (calls_made out - 1) of
        None \<Rightarrow> result out = None \<and> finished out = probe_end w start (calls_made out - 1)
      | Some e \<Rightarrow>
          if probe_end w start (calls_made out - 1) > start + timeout
          then result out = Some (AgentTimeout timeout e) \<and>
               finished out = probe_end w start (calls_made out - 1)
          else (\<exists>c ce. ctx_done w = Some (c, ce) \<and>
                  c < probe_end w start (calls_made out - 1) +
                        backoff_sequence (calls_made out - 1) \<and>
                  result out = Some ce \<and>
                  finished out = max (probe_end w start (calls_made out - 1)) c))"

section \<open>Example inputs\<close>

definition refused :: go_error where
  "refused = Wrapped ''request failed'' (Opaque ''connection refused'')"

definition project_example :: Project where
  "project_example =
     \<lparr>Project_ID = ''proj-1'', Project_Name = ''webapp'', Project_Status = ''running'',
      Project_Path = ''/opt/stacks/webapp'',
      Project_Services =
        [\<lparr>ProjectService_Name = ''api'', ProjectService_Status = ''running'',
          ProjectService_Image = ''myapp:v1''\<rparr>]\<rparr>"

definition world_third :: world where
  "world_third =
     \<lparr>probe_err = (\<lambda>k. if k < 2 then Some refused else None),
      probe_dur = (\<lambda>k. 1000000),
      ctx_done = None,
      deploy_err = None, redeploy_err = None, stop_err = None,
      project_resp = Inr project_example,
      containers_resp = Inr [],
      timestamp = ''2026-02-02T00:00:00Z''\<rparr>"

definition world_down :: world where
  "world_down = world_third\<lparr>probe_err := (\<lambda>k. Some refused)\<rparr>"

definition world_cancelled :: world where
  "world_cancelled = world_down\<lparr>ctx_done := Some (7 * Second, ContextCanceled)\<rparr>"

definition world_gone :: world where
  "world_gone = world_third\<lparr>stop_err := Some (APIError 404 ''project not found'' [])\<rparr>"

definition world_broken :: world where
  "world_broken =
     world_third\<lparr>stop_err := Some (APIError 500 ''internal error'' []),
                 containers_resp := Inl refused\<rparr>"

definition pd_example :: "string \<Rightarrow> go_error + int" where
  "pd_example s =
     (if s = ''1s'' then Inr Second
      else if s = ''2m'' then Inr (2 * Minute)
      else if s = ''-5s'' then Inr (- 5 * Second)
      else if s = ''0'' then Inr 0
      else Inl (Opaque ''time: invalid duration''))"

definition record_example :: ProjectDeploymentResourceModel where
  "record_example =
     \<lparr>ID = Known ''env-1/proj-1'', EnvironmentID = Known ''env-1'', ProjectID = Known ''proj-1'',
      Pull = Known False, ForceRecreate = Known False, RemoveOrphans = Known False,
      StopOnDelete = Known False, Triggers = Known [''compose'' \<mapsto> Known ''v1''],
      WaitTimeout = Known ''2m'', Status = Known ''running'',
      LastDeployedAt = Known ''2026-01-01T00:00:00Z''\<rparr>"

definition plan_example :: ProjectDeploymentResourceModel where
  "plan_example = record_example\<lparr>ID := Unknown, Status := Unknown, LastDeployedAt := Unknown\<rparr>"

definition plan_hasty :: ProjectDeploymentResourceModel where
  "plan_hasty = plan_example\<lparr>WaitTimeout := Known ''1s''\<rparr>"

definition desired_example :: ProjectDeploymentResourceModel where
  "desired_example = record_example\<lparr>StopOnDelete := Known True, Status := Unknown\<rparr>"

definition status_query :: ProjectStatusDataSourceModel where
  "status_query =
     \<lparr>DS_EnvironmentID = Known ''env-1'', DS_ProjectID = Known ''proj-1'', DS_Name = Null,
      DS_Status = Null, DS_Path = Null, DS_Containers = Null\<rparr>"

section \<open>Properties\<close>

subsection \<open>The wait timeout\<close>

text \<open>
  C10. Parsing the wait timeout has no error result (its type is a duration) and is
  defined on every record: an empty string gives 2 minutes, a string that
  \<open>time.ParseDuration\<close> rejects gives 2 minutes, and any other string gives the parsed
  duration unchanged, whatever its sign.
\<close>

theorem parseWaitTimeout_default:
  "(ValueString (WaitTimeout data) = [] \<longrightarrow> parseWaitTimeout pd data = 120000000000)
   \<and> (\<forall>err. pd (ValueString (WaitTimeout data)) = Inl err \<longrightarrow>
          parseWaitTimeout pd data = 120000000000)
   \<and> (\<forall>d. ValueString (WaitTimeout data) \<noteq> [] \<and> pd (ValueString (WaitTimeout data)) = Inr d \<longrightarrow>
          parseWaitTimeout pd data = d)"
  by (auto simp: parseWaitTimeout_def Minute_def Second_def Let_def)

theorem parseWaitTimeout_default_witness:
  "parseWaitTimeout pd_example (record_example\<lparr>WaitTimeout := Null\<rparr>) = 120000000000
   \<and> parseWaitTimeout pd_example (record_example\<lparr>WaitTimeout := Known ''soon''\<rparr>) = 120000000000
   \<and> parseWaitTimeout pd_example (record_example\<lparr>WaitTimeout := Known ''-5s''\<rparr>) = - 5000000000
   \<and> parseWaitTimeout pd_example (record_example\<lparr>WaitTimeout := Known ''0''\<rparr>) = 0"
proof (intro conjI)
  show "parseWaitTimeout pd_example (record_example\<lparr>WaitTimeout := Null\<rparr>) = 120000000000"
    using parseWaitTimeout_default [of "record_example\<lparr>WaitTimeout := Null\<rparr>" pd_example]
    by simp
  show "parseWaitTimeout pd_example (record_example\<lparr>WaitTimeout := Known ''soon''\<rparr>) = 120000000000"
    using parseWaitTimeout_default [of "record_example\<lparr>WaitTimeout := Known ''soon''\<rparr>" pd_example]
    by (simp add: pd_example_def)
  show "parseWaitTimeout pd_example (record_example\<lparr>WaitTimeout := Known ''-5s''\<rparr>) = - 5000000000"
    using parseWaitTimeout_default [of "record_example\<lparr>WaitTimeout := Known ''-5s''\<rparr>" pd_example]
    by (simp add: pd_example_def Second_def)
  show "parseWaitTimeout pd_example (record_example\<lparr>WaitTimeout := Known ''0''\<rparr>) = 0"
    using parseWaitTimeout_default [of "record_example\<lparr>WaitTimeout := Known ''0''\<rparr>" pd_example]
    by (simp add: pd_example_def)
qed

subsection \<open>Delete\<close>

text \<open>
  C3. With \<open>stop_on_delete\<close> false (or null), \<open>Delete\<close> sends no request and reports
  no error: the record is only forgotten.
\<close>

theorem Delete_keeps_running:
  "\<not> ValueBool (StopOnDelete data) \<Longrightarrow>
     Delete w data = \<lparr>diagnostics = [], new_state = None, calls = []\<rparr>"
  by (simp add: Delete_def)

theorem Delete_keeps_running_witness:
  "Delete world_broken record_example = \<lparr>diagnostics = [], new_state = None, calls = []\<rparr>"
proof -
  have "\<not> ValueBool (StopOnDelete record_example)" by (simp add: record_example_def)
  then show ?thesis by (rule Delete_keeps_running)
qed

text \<open>
  C4. With \<open>stop_on_delete\<close> true, \<open>Delete\<close> sends exactly the stop request. It
  leaves no error when the request succeeds or fails with an error that \<open>IsNotFound\<close>
  accepts (an \<open>APIError\<close> of status 404); every other error is reported as
  \<open>Failed to stop project\<close>.
\<close>

theorem Delete_stops:
  assumes "ValueBool (StopOnDelete data)"
  shows "calls (Delete w data) =
           [StopProjectCall (ValueString (EnvironmentID data)) (ValueString (ProjectID data))]
         \<and> (stop_err w = None \<longrightarrow> diagnostics (Delete w data) = [])
         \<and> (\<forall>err. stop_err w = Some err \<and> IsNotFound err \<longrightarrow> diagnostics (Delete w data) = [])
         \<and> (\<forall>err. stop_err w = Some err \<and> \<not> IsNotFound err \<longrightarrow>
               diagnostics (Delete w data) = [(''Failed to stop project'', err)])
         \<and> (\<forall>code msg detail. IsNotFound (APIError code msg detail) = (code = 404))"
  using assms by (auto simp: Delete_def Let_def split: option.splits)

theorem Delete_stops_witness:
  "calls (Delete world_gone desired_example) = [StopProjectCall ''env-1'' ''proj-1'']
   \<and> diagnostics (Delete world_gone desired_example) = []
   \<and> diagnostics (Delete world_third desired_example) = []
   \<and> diagnostics (Delete world_broken desired_example) =
       [(''Failed to stop project'', APIError 500 ''internal error'' [])]"
proof -
  have stop: "ValueBool (StopOnDelete desired_example)" by (simp add: desired_example_def)
  have gone: "stop_err world_gone = Some (APIError 404 ''project not found'' [])"
    by (simp add: world_gone_def)
  have ok: "stop_err world_third = None" by (simp add: world_third_def)
  have broken: "stop_err world_broken = Some (APIError 500 ''internal error'' [])"
    by (simp add: world_broken_def)
  show ?thesis
    using Delete_stops [OF stop, of world_gone] Delete_stops [OF stop, of world_third]
      Delete_stops [OF stop, of world_broken] gone ok broken
    by (simp add: desired_example_def record_example_def)
qed

subsection \<open>The status read\<close>

text \<open>
  C8. In the status read, the services are used exactly when the container list call
  fails: with an error and a non-empty service list the containers are built from the
  services; with a successful empty list the containers are null; with a successful
  non-empty list they are built from that list. No error is reported in either case.
\<close>

theorem Read_fallback:
  assumes "project_resp w = Inr project"
  shows "(\<forall>err. containers_resp w = Inl err \<and> Project_Services project \<noteq> [] \<longrightarrow>
            (\<exists>st. new_state (Read w data) = Some st \<and>
                  DS_Containers st = Known (map service_object (Project_Services project))))
       \<and> (containers_resp w = Inr [] \<longrightarrow>
            (\<exists>st. new_state (Read w data) = Some st \<and> DS_Containers st = Null))
       \<and> (\<forall>cs. containers_resp w = Inr cs \<and> cs \<noteq> [] \<longrightarrow>
            (\<exists>st. new_state (Read w data) = Some st \<and>
                  DS_Containers st = Known (map detail_object cs)))
       \<and> diagnostics (Read w data) = []"
  using assms by (auto simp: Read_def Let_def split: sum.splits)

theorem Read_fallback_witness:
  "new_state (Read world_broken status_query) =
     Some \<lparr>DS_EnvironmentID = Known ''env-1'', DS_ProjectID = Known ''proj-1'',
           DS_Name = Known ''webapp'', DS_Status = Known ''running'',
           DS_Path = Known ''/opt/stacks/webapp'',
           DS_Containers = Known
             [\<lparr>obj_id = Known [], obj_name = Known ''api'', obj_image = Known ''myapp:v1'',
               obj_status = Known ''running'', obj_health = Known [],
               obj_ports = Known []\<rparr>]\<rparr>
   \<and> new_state (Read world_third status_query) =
     Some \<lparr>DS_EnvironmentID = Known ''env-1'', DS_ProjectID = Known ''proj-1'',
           DS_Name = Known ''webapp'', DS_Status = Known ''running'',
           DS_Path = Known ''/opt/stacks/webapp'', DS_Containers = Null\<rparr>"
proof -
  have p1: "project_resp world_broken = Inr project_example"
    by (simp add: world_broken_def world_third_def)
  have p2: "project_resp world_third = Inr project_example"
    by (simp add: world_third_def)
  have c1: "containers_resp world_broken = Inl refused" by (simp add: world_broken_def)
  have c2: "containers_resp world_third = Inr []" by (simp add: world_third_def)
  have s: "Project_Services project_example \<noteq> []" by (simp add: project_example_def)
  from Read_fallback [OF p1, of status_query] c1 s
  obtain st where st: "new_state (Read world_broken status_query) = Some st"
    "DS_Containers st = Known (map service_object (Project_Services project_example))"
    by blast
  from Read_fallback [OF p2, of status_query] c2
  obtain st' where st': "new_state (Read world_third status_query) = Some st'"
    "DS_Containers st' = Null"
    by blast
  have "new_state (Read world_broken status_query) =
     Some \<lparr>DS_EnvironmentID = Known ''env-1'', DS_ProjectID = Known ''proj-1'',
           DS_Name = Known ''webapp'', DS_Status = Known ''running'',
           DS_Path = Known ''/opt/stacks/webapp'',
           DS_Containers = Known
             [\<lparr>obj_id = Known [], obj_name = Known ''api'', obj_image = Known ''myapp:v1'',
               obj_status = Known ''running'', obj_health = Known [],
               obj_ports = Known []\<rparr>]\<rparr>"
    using st
    by (simp add: Read_def Let_def p1 c1 status_query_def project_example_def service_object_def)
  moreover have "new_state (Read world_third status_query) =
     Some \<lparr>DS_EnvironmentID = Known ''env-1'', DS_ProjectID = Known ''proj-1'',
           DS_Name = Known ''webapp'', DS_Status = Known ''running'',
           DS_Path = Known ''/opt/stacks/webapp'', DS_Containers = Null\<rparr>"
    using st'
    by (simp add: Read_def Let_def p2 c2 status_query_def project_example_def)
  ultimately show ?thesis by simp
qed

subsection \<open>The plan modifier and Update\<close>

lemma attributes_changed_iff:
  "attributes_changed plan state \<longleftrightarrow>
     Triggers plan \<noteq> Triggers state \<or> Pull plan \<noteq> Pull state \<or>
     ForceRecreate plan \<noteq> ForceRecreate state \<or> RemoveOrphans plan \<noteq> RemoveOrphans state"
  by (simp add: attributes_changed_def GetAttributeBool_def Equal_def)

text \<open>
  With a prior \<open>last_deployed_at\<close>, the plan modifier answers unknown exactly when the
  triggers or one of the three options differ, and the prior value otherwise.
\<close>

lemma PlanModifyString_decision:
  "\<not> IsNull (StateValue req) \<Longrightarrow>
   PlanModifyString req =
     (if Triggers (Plan req) \<noteq> Triggers (State req) \<or> Pull (Plan req) \<noteq> Pull (State req) \<or>
         ForceRecreate (Plan req) \<noteq> ForceRecreate (State req) \<or>
         RemoveOrphans (Plan req) \<noteq> RemoveOrphans (State req)
      then Unknown else StateValue req)"
  by (simp add: PlanModifyString_def attributes_changed_iff)

text \<open>
  \<open>Update\<close> compares nothing: whatever the plan and the prior state are, its first
  request is the redeploy with the options of the plan.
\<close>

lemma Update_always_redeploys:
  "hd (calls (Update w data state)) =
     RedeployProjectCall (ValueString (EnvironmentID data)) (ValueString (ProjectID data))
       (deployReq data)"
  by (simp add: Update_def Let_def split: option.splits sum.splits)

text \<open>
  C1. A prior record and a desired record that differ in \<open>stop_on_delete\<close> only: the
  triggers and the three options are equal and the plan modifier keeps the prior
  \<open>last_deployed_at\<close>, yet \<open>Update\<close>, which runs for the changed attribute, posts
  the redeploy and writes a new \<open>last_deployed_at\<close>.
\<close>

theorem stop_on_delete_change_redeploys:
  "Triggers desired_example = Triggers record_example
   \<and> Pull desired_example = Pull record_example
   \<and> ForceRecreate desired_example = ForceRecreate record_example
   \<and> RemoveOrphans desired_example = RemoveOrphans record_example
   \<and> PlanModifyString
       \<lparr>PlanValue = Unknown, StateValue = LastDeployedAt record_example,
        Plan = desired_example\<lparr>LastDeployedAt := Unknown\<rparr>, State = record_example\<rparr>
     = Known ''2026-01-01T00:00:00Z''
   \<and> LastDeployedAt desired_example = Known ''2026-01-01T00:00:00Z''
   \<and> calls (Update world_third desired_example record_example) =
       [RedeployProjectCall ''env-1'' ''proj-1''
          \<lparr>Req_Pull = False, Req_ForceRecreate = False, Req_RemoveOrphans = False\<rparr>,
        GetProjectCall ''env-1'' ''proj-1'']
   \<and> diagnostics (Update world_third desired_example record_example) = []
   \<and> new_state (Update world_third desired_example record_example) =
       Some (desired_example\<lparr>Status := Known ''running'',
                             LastDeployedAt := Known ''2026-02-02T00:00:00Z''\<rparr>)"
  by (simp add: desired_example_def record_example_def PlanModifyString_def
      attributes_changed_def GetAttributeBool_def Equal_def Update_def deployReq_def
      world_third_def project_example_def Let_def)

subsection \<open>One round of the wait\<close>

lemma backoff_sequence_first: "map backoff_sequence [0..<5] =
   [5 * Second, 10 * Second, 20 * Second, 30 * Second, 30 * Second]"
  by (simp add: backoff_sequence_def upt_rec numeral_eq_Suc)

lemma backoff_sequence_pos: "5 * Second \<le> backoff_sequence k"
  by (simp add: backoff_sequence_def Second_def min_def)

lemma next_backoff_sequence: "next_backoff (backoff_sequence k) = backoff_sequence (Suc k)"
  by (auto simp: next_backoff_def backoff_sequence_def Second_def min_def Let_def)

lemma waitLoop_success:
  "probe_err w (probes s) = None \<Longrightarrow>
   waitLoop w timeout deadline s =
     Some (returning s None (now s + int (probe_dur w (probes s))))"
  by (subst waitLoop.simps) (simp add: Let_def)

lemma waitLoop_timeout:
  "probe_err w (probes s) = Some err \<Longrightarrow> deadline < now s + int (probe_dur w (probes s)) \<Longrightarrow>
   waitLoop w timeout deadline s =
     Some (returning s (Some (AgentTimeout timeout err)) (now s + int (probe_dur w (probes s))))"
  by (subst waitLoop.simps) (simp add: Let_def)

lemma waitLoop_cancelled:
  "probe_err w (probes s) = Some err \<Longrightarrow> \<not> deadline < now s + int (probe_dur w (probes s)) \<Longrightarrow>
   select_sleep (ctx_done w) (now s + int (probe_dur w (probes s))) (backoff s) = CtxDone t' e \<Longrightarrow>
   waitLoop w timeout deadline s = Some (returning s (Some e) t')"
  by (subst waitLoop.simps) (simp add: Let_def)

lemma waitLoop_continue:
  "probe_err w (probes s) = Some err \<Longrightarrow> \<not> deadline < now s + int (probe_dur w (probes s)) \<Longrightarrow>
   select_sleep (ctx_done w) (now s + int (probe_dur w (probes s))) (backoff s) = TimerFired t' \<Longrightarrow>
   waitLoop w timeout deadline s = waitLoop w timeout deadline (after_sleep s t')"
  by (subst waitLoop.simps) (simp add: Let_def)

lemma select_sleep_TimerFired:
  "select_sleep d t b = TimerFired t' \<Longrightarrow> t' = t + b"
  by (auto simp: select_sleep_def split: option.splits if_splits)

lemma select_sleep_CtxDone:
  "select_sleep d t b = CtxDone t' e \<Longrightarrow> \<exists>c. d = Some (c, e) \<and> c < t + b \<and> t' = max t c"
  by (auto simp: select_sleep_def split: option.splits if_splits)

lemma on_schedule_after_sleep:
  assumes "on_schedule w start s"
  shows "on_schedule w start
           (after_sleep s (now s + int (probe_dur w (probes s)) + backoff s))"
  using assms
  by (simp add: on_schedule_def after_sleep_def next_backoff_sequence)

lemma wait_post_step:
  assumes "wait_post w timeout start (Suc k) out"
    and "probe_err w k \<noteq> None" and "probe_end w start k \<le> start + timeout"
  shows "wait_post w timeout start k out"
  unfolding wait_post_def
proof (intro conjI allI impI)
  show "k < calls_made out" using assms(1) by (simp add: wait_post_def)
  show "sleeps out = map backoff_sequence [0..<calls_made out - 1]"
    using assms(1) by (simp add: wait_post_def)
  show "case probe_err w (calls_made out - 1) of
        None \<Rightarrow> result out = None \<and> finished out = probe_end w start (calls_made out - 1)
      | Some e \<Rightarrow>
          if probe_end w start (calls_made out - 1) > start + timeout
          then result out = Some (AgentTimeout timeout e) \<and>
               finished out = probe_end w start (calls_made out - 1)
          else (\<exists>c ce. ctx_done w = Some (c, ce) \<and>
                  c < probe_end w start (calls_made out - 1) +
                        backoff_sequence (calls_made out - 1) \<and>
                  result out = Some ce \<and>
                  finished out = max (probe_end w start (calls_made out - 1)) c)"
    using assms(1) unfolding wait_post_def by blast
next
  fix i assume i: "k \<le> i \<and> i < calls_made out - 1"
  show "probe_err w i \<noteq> None"
  proof (cases "i = k")
    case True then show ?thesis using assms(2) by simp
  next
    case False
    with i have "Suc k \<le> i \<and> i < calls_made out - 1" by simp
    then show ?thesis using assms(1) unfolding wait_post_def by blast
  qed
  show "probe_end w start i \<le> start + timeout"
  proof (cases "i = k")
    case True then show ?thesis using assms(3) by simp
  next
    case False
    with i have "Suc k \<le> i \<and> i < calls_made out - 1" by simp
    then show ?thesis using assms(1) unfolding wait_post_def by blast
  qed
qed

subsection \<open>Every wait returns\<close>

lemma waitLoop_spec:
  assumes "on_schedule w start s"
  shows "\<exists>out. waitLoop w timeout (start + timeout) s = Some out \<and>
               wait_post w timeout start (probes s) out"
  using assms
proof (induction "nat (start + timeout + 1 - now s)" arbitrary: s rule: less_induct)
  case less
  let ?k = "probes s"
  let ?t = "now s + int (probe_dur w ?k)"
  from less.prems have sched:
    "now s = probe_start w start ?k" "backoff s = backoff_sequence ?k"
    "slept s = map backoff_sequence [0..<?k]"
    by (simp_all add: on_schedule_def)
  have t: "?t = probe_end w start ?k" by (simp add: probe_end_def sched)
  show ?case
  proof (cases "probe_err w ?k")
    case None
    then show ?thesis
      using waitLoop_success [OF None, of timeout "start + timeout"] sched t
      by (auto simp: returning_def wait_post_def)
  next
    case (Some err)
    show ?thesis
    proof (cases "start + timeout < ?t")
      case True
      then show ?thesis
        using waitLoop_timeout [OF Some True, of timeout] sched t Some
        by (auto simp: returning_def wait_post_def)
    next
      case False
      show ?thesis
      proof (cases "select_sleep (ctx_done w) ?t (backoff s)")
        case (CtxDone t' ce)
        from select_sleep_CtxDone [OF CtxDone]
        obtain c where c: "ctx_done w = Some (c, ce)" "c < ?t + backoff s" "t' = max ?t c"
          by blast
        show ?thesis
          using waitLoop_cancelled [OF Some False CtxDone, of timeout] sched t Some False c
          by (auto simp: returning_def wait_post_def)
      next
        case (TimerFired t')
        from select_sleep_TimerFired [OF TimerFired] have t': "t' = ?t + backoff s" .
        let ?s' = "after_sleep s t'"
        have sched': "on_schedule w start ?s'"
          unfolding t' by (rule on_schedule_after_sleep [OF less.prems])
        have "5 * Second \<le> backoff s" by (simp add: sched backoff_sequence_pos)
        then have "now s < now ?s'"
          by (simp add: after_sleep_def t' Second_def)
        with False have "nat (start + timeout + 1 - now ?s') < nat (start + timeout + 1 - now s)"
          by simp
        from less.hyps [OF this sched']
        obtain out where out: "waitLoop w timeout (start + timeout) ?s' = Some out"
          "wait_post w timeout start (probes ?s') out" by blast
        have "wait_post w timeout start ?k out"
        proof (rule wait_post_step)
          show "wait_post w timeout start (Suc ?k) out"
            using out(2) by (simp add: after_sleep_def)
          show "probe_err w ?k \<noteq> None" using Some by simp
          show "probe_end w start ?k \<le> start + timeout" using False t by simp
        qed
        then show ?thesis
          using waitLoop_continue [OF Some False TimerFired, of timeout] out(1) by simp
      qed
    qed
  qed
qed

lemma waitForAgent_spec:
  "\<exists>out. waitForAgent w timeout start = Some out \<and> wait_post w timeout start 0 out"
proof -
  have "on_schedule w start \<lparr>now = start, backoff = 5 * Second, probes = 0, slept = []\<rparr>"
    by (simp add: on_schedule_def backoff_sequence_def)
  from waitLoop_spec [OF this, of timeout] show ?thesis
    by (simp add: waitForAgent_def)
qed

lemma probe_end_sum:
  "probe_end w start n =
     start + sum_list (map backoff_sequence [0..<n]) + (\<Sum>k<Suc n. int (probe_dur w k))"
proof (induction n)
  case 0
  then show ?case by (simp add: probe_end_def)
next
  case (Suc n)
  have "probe_end w start (Suc n) =
        probe_end w start n + backoff_sequence n + int (probe_dur w (Suc n))"
    by (simp add: probe_end_def)
  with Suc show ?case by simp
qed

lemma probe_start_mono: "i \<le> j \<Longrightarrow> probe_start w start i \<le> probe_start w start j"
proof (induction j)
  case 0
  then show ?case by simp
next
  case (Suc j)
  have "0 \<le> backoff_sequence j"
    using backoff_sequence_pos [of j] by (simp add: Second_def)
  then have "probe_start w start j \<le> probe_start w start (Suc j)" by simp
  with Suc show ?case by (cases "i = Suc j") auto
qed

lemma waitForAgent_world_third:
  "waitForAgent world_third (2 * Minute) 0 =
     Some \<lparr>result = None, finished = 15003000000, calls_made = 3,
           sleeps = [5 * Second, 10 * Second]\<rparr>"
  by code_simp

lemma waitForAgent_world_down:
  "waitForAgent world_down Second 0 =
     Some \<lparr>result = Some (AgentTimeout Second refused), finished = 5002000000,
           calls_made = 2, sleeps = [5 * Second]\<rparr>"
  by code_simp

text \<open>
  C5. For every probe and timeout the wait returns. The sleeps completed are the first
  ones of 5s, 10s, 20s, 30s, 30s, ...; every probe before the last one failed before
  the deadline; the wait returns \<open>nil\<close> exactly when the last probe issued returned
  \<open>nil\<close>; and when the last probe failed and the deadline had passed on its return,
  the wait returns the timeout error wrapping that probe's error.
\<close>

theorem waitForAgent_polls:
  "\<exists>out. waitForAgent w timeout start = Some out \<and>
     0 < calls_made out \<and>
     sleeps out = map backoff_sequence [0..<calls_made out - 1] \<and>
     map backoff_sequence [0..<5] =
       [5 * Second, 10 * Second, 20 * Second, 30 * Second, 30 * Second] \<and>
     (\<forall>k\<ge>3. backoff_sequence k = 30 * Second) \<and>
     (\<forall>i<calls_made out - 1.
        probe_err w i \<noteq> None \<and> probe_end w start i \<le> start + timeout) \<and>
     (probe_err w (calls_made out - 1) = None \<longleftrightarrow> result out = None) \<and>
     (\<forall>err. probe_err w (calls_made out - 1) = Some err \<and>
            start + timeout < probe_end w start (calls_made out - 1) \<longrightarrow>
            result out = Some (AgentTimeout timeout err))"
proof -
  from waitForAgent_spec [of w timeout start]
  obtain out where run: "waitForAgent w timeout start = Some out"
    and post: "wait_post w timeout start 0 out" by blast
  have cap: "\<forall>k\<ge>3. backoff_sequence k = 30 * Second"
  proof (intro allI impI)
    fix k :: nat assume "3 \<le> k"
    then have "(2::int) ^ 3 \<le> 2 ^ k" by (intro power_increasing) simp_all
    then show "backoff_sequence k = 30 * Second"
      by (simp add: backoff_sequence_def min_def)
  qed
  have last: "probe_err w (calls_made out - 1) = None \<longleftrightarrow> result out = None"
    using post by (auto simp: wait_post_def split: option.splits if_splits)
  have tmo: "\<forall>err. probe_err w (calls_made out - 1) = Some err \<and>
            start + timeout < probe_end w start (calls_made out - 1) \<longrightarrow>
            result out = Some (AgentTimeout timeout err)"
    using post by (auto simp: wait_post_def split: option.splits if_splits)
  have earlier: "\<forall>i<calls_made out - 1.
        probe_err w i \<noteq> None \<and> probe_end w start i \<le> start + timeout"
    using post by (simp add: wait_post_def)
  have "0 < calls_made out" using post by (simp add: wait_post_def)
  moreover have "sleeps out = map backoff_sequence [0..<calls_made out - 1]"
    using post by (simp add: wait_post_def)
  ultimately show ?thesis
    using run cap last tmo earlier backoff_sequence_first
    by - (rule exI [of _ out], intro conjI, assumption+)
qed

theorem waitForAgent_polls_witness:
  "waitForAgent world_third (2 * Minute) 0 =
     Some \<lparr>result = None, finished = 15003000000, calls_made = 3,
           sleeps = [5 * Second, 10 * Second]\<rparr>
   \<and> probe_err world_third 0 \<noteq> None \<and> probe_err world_third 1 \<noteq> None
   \<and> probe_err world_third 2 = None
   \<and> waitForAgent world_down Second 0 =
       Some \<lparr>result = Some (AgentTimeout Second refused), finished = 5002000000,
             calls_made = 2, sleeps = [5 * Second]\<rparr>
   \<and> probe_err world_down 1 = Some refused
   \<and> 0 + Second < probe_end world_down 0 1"
proof -
  have third: "waitForAgent world_third (2 * Minute) 0 =
     Some \<lparr>result = None, finished = 15003000000, calls_made = 3,
           sleeps = [5 * Second, 10 * Second]\<rparr>"
    by code_simp
  have down: "waitForAgent world_down Second 0 =
       Some \<lparr>result = Some (AgentTimeout Second refused), finished = 5002000000,
             calls_made = 2, sleeps = [5 * Second]\<rparr>"
    by code_simp
  from waitForAgent_polls [of world_third "2 * Minute" 0] third
  have "probe_err world_third 2 = None"
    and "probe_err world_third 0 \<noteq> None \<and> probe_err world_third 1 \<noteq> None"
    by (auto simp: numeral_2_eq_2 less_Suc_eq)
  moreover from waitForAgent_polls [of world_down Second 0] down
  have "probe_err world_down 1 \<noteq> None" by auto
  moreover have "probe_err world_down 1 = Some refused"
    by (simp add: world_down_def)
  moreover have "0 + Second < probe_end world_down 0 1"
    by (simp add: probe_end_def world_down_def world_third_def backoff_sequence_def Second_def)
  ultimately show ?thesis using third down by blast
qed

subsection \<open>Cancellation\<close>

lemma waitLoop_cancelled_in_round:
  assumes fail: "\<forall>i\<le>k. probe_err w i \<noteq> None"
    and early: "\<forall>i\<le>k. probe_end w start i \<le> start + timeout"
    and ctx: "ctx_done w = Some (c, ce)"
    and during: "probe_end w start k \<le> c" "c < probe_end w start k + backoff_sequence k"
    and sched: "on_schedule w start s" and le: "probes s \<le> k"
  shows "waitLoop w timeout (start + timeout) s =
           Some \<lparr>result = Some ce, finished = c, calls_made = Suc k,
                 sleeps = map backoff_sequence [0..<k]\<rparr>"
  using sched le
proof (induction "k - probes s" arbitrary: s)
  case 0
  then have k: "probes s = k" by simp
  from fail k obtain err where err: "probe_err w (probes s) = Some err" by auto
  have now: "now s + int (probe_dur w (probes s)) = probe_end w start k"
    using "0.prems"(1) k by (simp add: on_schedule_def probe_end_def)
  have nd: "\<not> start + timeout < now s + int (probe_dur w (probes s))"
    using early now by auto
  have b: "backoff s = backoff_sequence k" using "0.prems"(1) k by (simp add: on_schedule_def)
  have sel: "select_sleep (ctx_done w) (now s + int (probe_dur w (probes s))) (backoff s) =
             CtxDone c ce"
    using ctx during by (simp add: select_sleep_def now b)
  show ?case
    using waitLoop_cancelled [OF err nd sel, of timeout] "0.prems"(1) k
    by (simp add: returning_def on_schedule_def)
next
  case (Suc n)
  then have lt: "probes s < k" by simp
  let ?j = "probes s"
  let ?t = "now s + int (probe_dur w ?j)"
  from fail lt obtain err where err: "probe_err w ?j = Some err" by force
  have now: "?t = probe_end w start ?j"
    using Suc.prems(1) by (simp add: on_schedule_def probe_end_def)
  have "probe_end w start ?j \<le> start + timeout"
    using early lt by (simp add: less_imp_le)
  then have nd: "\<not> start + timeout < ?t"
    using now by simp
  have b: "backoff s = backoff_sequence ?j" using Suc.prems(1) by (simp add: on_schedule_def)
  have "probe_start w start (Suc ?j) \<le> probe_start w start k"
    using lt by (intro probe_start_mono) simp
  also have "\<dots> \<le> probe_end w start k" by (simp add: probe_end_def)
  finally have "?t + backoff s \<le> c"
    using during(1) by (simp add: now b probe_end_def)
  then have sel: "select_sleep (ctx_done w) ?t (backoff s) = TimerFired (?t + backoff s)"
    using ctx by (simp add: select_sleep_def)
  let ?s' = "after_sleep s (?t + backoff s)"
  have sched': "on_schedule w start ?s'"
    by (rule on_schedule_after_sleep [OF Suc.prems(1)])
  have "n = k - probes ?s'" using Suc.hyps(2) by (simp add: after_sleep_def)
  moreover have "probes ?s' \<le> k" using lt by (simp add: after_sleep_def)
  ultimately have "waitLoop w timeout (start + timeout) ?s' =
           Some \<lparr>result = Some ce, finished = c, calls_made = Suc k,
                 sleeps = map backoff_sequence [0..<k]\<rparr>"
    using Suc.hyps(1) sched' by blast
  then show ?case
    using waitLoop_continue [OF err nd sel, of timeout] by simp
qed

text \<open>
  C6. When the probes \<open>0..k\<close> fail before the deadline and the context is closed at a
  time \<open>c\<close> within the sleep that follows probe \<open>k\<close>, the wait returns the error of
  the context at time \<open>c\<close>, after \<open>k + 1\<close> probes and \<open>k\<close> completed sleeps.
\<close>

theorem waitForAgent_cancelled_while_sleeping:
  assumes "\<forall>i\<le>k. probe_err w i \<noteq> None"
    and "\<forall>i\<le>k. probe_end w start i \<le> start + timeout"
    and "ctx_done w = Some (c, ce)"
    and "probe_end w start k \<le> c" and "c < probe_end w start k + backoff_sequence k"
  shows "waitForAgent w timeout start =
           Some \<lparr>result = Some ce, finished = c, calls_made = Suc k,
                 sleeps = map backoff_sequence [0..<k]\<rparr>"
proof -
  have "on_schedule w start \<lparr>now = start, backoff = 5 * Second, probes = 0, slept = []\<rparr>"
    by (simp add: on_schedule_def backoff_sequence_def)
  from waitLoop_cancelled_in_round [OF assms this] show ?thesis
    by (simp add: waitForAgent_def)
qed

theorem waitForAgent_cancelled_while_sleeping_witness:
  "waitForAgent world_cancelled (2 * Minute) 0 =
     Some \<lparr>result = Some ContextCanceled, finished = 7 * Second, calls_made = 2,
           sleeps = [5 * Second]\<rparr>"
proof -
  have pe: "probe_end world_cancelled 0 0 = 1000000" "probe_end world_cancelled 0 1 = 5002000000"
    by (simp_all add: probe_end_def world_cancelled_def world_down_def world_third_def
        backoff_sequence_def Second_def)
  have a1: "\<forall>i\<le>1. probe_err world_cancelled i \<noteq> None"
    by (simp add: world_cancelled_def world_down_def world_third_def)
  have a2: "\<forall>i\<le>1. probe_end world_cancelled 0 i \<le> 0 + 2 * Minute"
  proof (intro allI impI)
    fix i :: nat assume "i \<le> 1"
    then have "i = 0 \<or> i = 1" by auto
    then show "probe_end world_cancelled 0 i \<le> 0 + 2 * Minute"
      using pe by (auto simp: Minute_def Second_def)
  qed
  have a3: "ctx_done world_cancelled = Some (7 * Second, ContextCanceled)"
    by (simp add: world_cancelled_def)
  have a4: "probe_end world_cancelled 0 1 \<le> 7 * Second"
    using pe by (simp add: Second_def)
  have a5: "7 * Second < probe_end world_cancelled 0 1 + backoff_sequence 1"
    using pe by (simp add: Second_def backoff_sequence_def)
  from waitForAgent_cancelled_while_sleeping [OF a1 a2 a3 a4 a5]
  show ?thesis by (simp add: backoff_sequence_def)
qed

subsection \<open>A timeout of one second\<close>

text \<open>
  C7. With a probe that always fails, a context that is never cancelled and a timeout
  of one second, the wait returns the timeout error after no sleep or after the one
  sleep of 5 seconds: the time slept is at most the timeout plus one backoff interval,
  and the elapsed time is the time slept plus the time spent inside the probes.
\<close>

theorem waitForAgent_one_second:
  assumes fail: "\<forall>k. probe_err w k \<noteq> None" and ctx: "ctx_done w = None"
  shows "\<exists>out err. waitForAgent w Second start = Some out \<and>
           probe_err w (calls_made out - 1) = Some err \<and>
           result out = Some (AgentTimeout Second err) \<and>
           (sleeps out = [] \<or> sleeps out = [5 * Second]) \<and>
           sum_list (sleeps out) \<le> Second + 5 * Second \<and>
           finished out - start =
             sum_list (sleeps out) + (\<Sum>k<calls_made out. int (probe_dur w k)) \<and>
           finished out - start \<le>
             Second + 5 * Second + (\<Sum>k<calls_made out. int (probe_dur w k))"
proof -
  from waitForAgent_spec [of w Second start]
  obtain out where run: "waitForAgent w Second start = Some out"
    and post: "wait_post w Second start 0 out" by blast
  let ?n = "calls_made out - 1"
  from fail obtain err where err: "probe_err w ?n = Some err" by auto
  have pos: "calls_made out = Suc ?n" using post by (simp add: wait_post_def)
  have sl: "sleeps out = map backoff_sequence [0..<?n]"
    using post by (simp add: wait_post_def)
  have res: "result out = Some (AgentTimeout Second err)"
    and fin: "finished out = probe_end w start ?n"
    using post err ctx by (auto simp: wait_post_def split: if_splits)
  have n: "?n \<le> 1"
  proof (rule ccontr)
    assume "\<not> ?n \<le> 1"
    then have "1 < ?n" by simp
    with post have "probe_end w start 1 \<le> start + Second"
      by (simp add: wait_post_def)
    then show False
      by (simp add: probe_end_def backoff_sequence_def Second_def)
  qed
  then have cases: "?n = 0 \<or> ?n = 1" by auto
  then have short: "sleeps out = [] \<or> sleeps out = [5 * Second]"
    using sl by (auto simp: backoff_sequence_def)
  then have bound: "sum_list (sleeps out) \<le> Second + 5 * Second"
    by (auto simp: Second_def)
  have elapsed: "finished out - start =
          sum_list (sleeps out) + (\<Sum>k<calls_made out. int (probe_dur w k))"
    using fin sl probe_end_sum [of w start ?n] pos by simp
  with bound have "finished out - start \<le>
          Second + 5 * Second + (\<Sum>k<calls_made out. int (probe_dur w k))"
    by simp
  with run err res short bound elapsed show ?thesis by blast
qed

theorem waitForAgent_one_second_witness:
  "waitForAgent world_down Second 0 =
     Some \<lparr>result = Some (AgentTimeout Second refused), finished = 5002000000,
           calls_made = 2, sleeps = [5 * Second]\<rparr>"
proof -
  have a1: "\<forall>k. probe_err world_down k \<noteq> None" by (simp add: world_down_def)
  have a2: "ctx_done world_down = None" by (simp add: world_down_def world_third_def)
  from waitForAgent_one_second [OF a1 a2, of 0]
  obtain out err where "waitForAgent world_down Second 0 = Some out"
    "result out = Some (AgentTimeout Second err)" by blast
  moreover have "waitForAgent world_down Second 0 =
     Some \<lparr>result = Some (AgentTimeout Second refused), finished = 5002000000,
           calls_made = 2, sleeps = [5 * Second]\<rparr>"
    by code_simp
  ultimately show ?thesis by simp
qed

subsection \<open>Create\<close>

lemma Create_ignores_triggers:
  "map_option calls (Create pd w start (data\<lparr>Triggers := t\<rparr>)) =
   map_option calls (Create pd w start data)"
  by (simp add: Create_def parseWaitTimeout_def deployReq_def composite_id_def Let_def
      split: option.splits sum.splits)

text \<open>
  C2, amended. \<open>Create\<close> returns. When the wait for the agent succeeds it sends, after
  the probes, the deploy request with the three options of the plan; when the wait
  fails it reports \<open>Agent not reachable\<close> and has sent the probes only. The requests
  sent do not depend on the triggers.
\<close>

theorem Create_deploys_once_reachable:
  "\<exists>out r. waitForAgent w (parseWaitTimeout pd data) start = Some out \<and>
     Create pd w start data = Some r \<and>
     (result out = None \<longrightarrow>
        (\<exists>rest. calls r =
           replicate (calls_made out)
             (GetProjectCall (ValueString (EnvironmentID data)) (ValueString (ProjectID data))) @
           [DeployProjectCall (ValueString (EnvironmentID data)) (ValueString (ProjectID data))
              \<lparr>Req_Pull = ValueBool (Pull data),
               Req_ForceRecreate = ValueBool (ForceRecreate data),
               Req_RemoveOrphans = ValueBool (RemoveOrphans data)\<rparr>] @ rest \<and>
           (rest = [] \<or>
            rest = [GetProjectCall (ValueString (EnvironmentID data))
                      (ValueString (ProjectID data))]))) \<and>
     (\<forall>err. result out = Some err \<longrightarrow>
        r = \<lparr>diagnostics = [(''Agent not reachable'', err)], new_state = None,
             calls = replicate (calls_made out)
               (GetProjectCall (ValueString (EnvironmentID data))
                  (ValueString (ProjectID data)))\<rparr>) \<and>
     (\<forall>t. map_option calls (Create pd w start (data\<lparr>Triggers := t\<rparr>)) = Some (calls r))"
proof -
  from waitForAgent_spec [of w "parseWaitTimeout pd data" start]
  obtain out where run: "waitForAgent w (parseWaitTimeout pd data) start = Some out"
    by blast
  then obtain r where r: "Create pd w start data = Some r"
    by (simp add: Create_def Let_def)
  have reach: "result out = None \<longrightarrow>
        (\<exists>rest. calls r =
           replicate (calls_made out)
             (GetProjectCall (ValueString (EnvironmentID data)) (ValueString (ProjectID data))) @
           [DeployProjectCall (ValueString (EnvironmentID data)) (ValueString (ProjectID data))
              \<lparr>Req_Pull = ValueBool (Pull data),
               Req_ForceRecreate = ValueBool (ForceRecreate data),
               Req_RemoveOrphans = ValueBool (RemoveOrphans data)\<rparr>] @ rest \<and>
           (rest = [] \<or>
            rest = [GetProjectCall (ValueString (EnvironmentID data))
                      (ValueString (ProjectID data))]))"
    using run r
    by (auto simp: Create_def Let_def deployReq_def split: option.splits sum.splits)
  have unreach: "\<forall>err. result out = Some err \<longrightarrow>
        r = \<lparr>diagnostics = [(''Agent not reachable'', err)], new_state = None,
             calls = replicate (calls_made out)
               (GetProjectCall (ValueString (EnvironmentID data))
                  (ValueString (ProjectID data)))\<rparr>"
    using run r by (auto simp: Create_def Let_def)
  have trig: "\<forall>t. map_option calls (Create pd w start (data\<lparr>Triggers := t\<rparr>)) = Some (calls r)"
    using Create_ignores_triggers [where pd = pd and w = w and start = start and data = data] r
    by simp
  from run r reach unreach trig show ?thesis
    by - (rule exI [of _ out], rule exI [of _ r], intro conjI, assumption+)
qed

theorem Create_deploys_once_reachable_witness:
  "calls (the (Create pd_example world_third 0 plan_example)) =
     [GetProjectCall ''env-1'' ''proj-1'', GetProjectCall ''env-1'' ''proj-1'',
      GetProjectCall ''env-1'' ''proj-1'',
      DeployProjectCall ''env-1'' ''proj-1''
        \<lparr>Req_Pull = False, Req_ForceRecreate = False, Req_RemoveOrphans = False\<rparr>,
      GetProjectCall ''env-1'' ''proj-1'']
   \<and> result (the (waitForAgent world_third (parseWaitTimeout pd_example plan_example) 0)) = None"
proof -
  have t: "parseWaitTimeout pd_example plan_example = 2 * Minute"
    by (simp add: parseWaitTimeout_def pd_example_def plan_example_def record_example_def)
  have three: "replicate 3 x = [x, x, x]" for x :: api_call
    by (simp add: numeral_3_eq_3)
  have ids: "ValueString (EnvironmentID plan_example) = ''env-1''"
    "ValueString (ProjectID plan_example) = ''proj-1''"
    "deployReq plan_example =
       \<lparr>Req_Pull = False, Req_ForceRecreate = False, Req_RemoveOrphans = False\<rparr>"
    by (simp_all add: plan_example_def record_example_def deployReq_def)
  from Create_deploys_once_reachable [of world_third pd_example plan_example 0]
  obtain out r where out: "waitForAgent world_third (2 * Minute) 0 = Some out"
    and r: "Create pd_example world_third 0 plan_example = Some r"
    unfolding t by blast
  from out waitForAgent_world_third have res: "result out = None" "calls_made out = 3"
    by auto
  have "calls r =
     [GetProjectCall ''env-1'' ''proj-1'', GetProjectCall ''env-1'' ''proj-1'',
      GetProjectCall ''env-1'' ''proj-1'',
      DeployProjectCall ''env-1'' ''proj-1''
        \<lparr>Req_Pull = False, Req_ForceRecreate = False, Req_RemoveOrphans = False\<rparr>,
      GetProjectCall ''env-1'' ''proj-1'']"
    using r out res
    by (auto simp: Create_def Let_def t ids three world_third_def)
  then show ?thesis using r out res t by simp
qed

text \<open>
  An agent that never answers, with a timeout of one second: \<open>Create\<close> sends two
  probes and no deploy request.
\<close>

theorem Create_without_deploy:
  "Create pd_example world_down 0 plan_hasty =
     Some \<lparr>diagnostics = [(''Agent not reachable'', AgentTimeout Second refused)],
           new_state = None,
           calls = [GetProjectCall ''env-1'' ''proj-1'', GetProjectCall ''env-1'' ''proj-1'']\<rparr>"
proof -
  have t: "parseWaitTimeout pd_example plan_hasty = Second"
    by (simp add: parseWaitTimeout_def pd_example_def plan_hasty_def)
  show ?thesis
    using t waitForAgent_world_down
    by (simp add: Create_def Let_def plan_hasty_def plan_example_def record_example_def
        numeral_2_eq_2)
qed

subsection \<open>Import\<close>

lemma SplitN_slash_2_joined:
  assumes "CHR ''/'' \<notin> set e"
  shows "SplitN_slash_2 (e @ ''/'' @ p) = [e, p]"
proof -
  have all: "\<And>c. c \<in> set e \<Longrightarrow> not_slash c"
    using assms by (auto simp: not_slash_def)
  have tw: "takeWhile not_slash (e @ ''/'' @ p) = e"
    using all by (simp add: takeWhile_append2 not_slash_def)
  have dw: "dropWhile not_slash (e @ ''/'' @ p) = ''/'' @ p"
    using all by (simp add: dropWhile_append2 not_slash_def)
  show ?thesis
    unfolding SplitN_slash_2_def using tw dw by simp
qed

lemma SplitN_slash_2_rejoin:
  assumes "CHR ''/'' \<in> set s"
  shows "s = takeWhile not_slash s @ ''/'' @ tl (dropWhile not_slash s)"
proof -
  have ne: "dropWhile not_slash s \<noteq> []"
    using assms by (auto simp: dropWhile_eq_Nil_conv not_slash_def)
  then have "\<not> not_slash (hd (dropWhile not_slash s))"
    by (rule hd_dropWhile)
  then have "hd (dropWhile not_slash s) = CHR ''/''"
    by (simp add: not_slash_def)
  with ne have "dropWhile not_slash s = ''/'' @ tl (dropWhile not_slash s)"
    by (cases "dropWhile not_slash s") auto
  then have "takeWhile not_slash s @ dropWhile not_slash s =
             takeWhile not_slash s @ ''/'' @ tl (dropWhile not_slash s)"
    by simp
  then show ?thesis by simp
qed

text \<open>
  C9. The composite key round-trips through import. The state that \<open>Create\<close>
  writes has the id environment id, \<open>/\<close>, project id; importing that id gives back the pair when the
  environment id is not empty and has no \<open>/\<close> and the project id is not empty; an id
  that is not a non-empty part, a \<open>/\<close> and a non-empty part is rejected.
\<close>

theorem import_roundtrip:
  "(\<forall>r st. Create pd w start data = Some r \<and> new_state r = Some st \<longrightarrow>
      ID st = Known (ValueString (EnvironmentID data) @ ''/'' @ ValueString (ProjectID data)))
   \<and> composite_id data = ValueString (EnvironmentID data) @ ''/'' @ ValueString (ProjectID data)
   \<and> (ValueString (EnvironmentID data) \<noteq> [] \<and>
      CHR ''/'' \<notin> set (ValueString (EnvironmentID data)) \<and>
      ValueString (ProjectID data) \<noteq> [] \<longrightarrow>
        ImportState (composite_id data) =
          Inr \<lparr>import_id = composite_id data,
               import_environment_id = ValueString (EnvironmentID data),
               import_project_id = ValueString (ProjectID data)\<rparr>)
   \<and> ((\<nexists>e p. e \<noteq> [] \<and> p \<noteq> [] \<and> req_id = e @ ''/'' @ p) \<longrightarrow>
        ImportState req_id =
          Inl (''Invalid import ID'',
               ''Expected format: environment_id/project_id, got: '' @ req_id))"
proof (intro conjI impI)
  show "\<forall>r st. Create pd w start data = Some r \<and> new_state r = Some st \<longrightarrow>
      ID st = Known (ValueString (EnvironmentID data) @ ''/'' @ ValueString (ProjectID data))"
    by (auto simp: Create_def Let_def composite_id_def split: option.splits sum.splits)
next
  show "composite_id data =
        ValueString (EnvironmentID data) @ ''/'' @ ValueString (ProjectID data)"
    by (simp add: composite_id_def)
next
  assume a: "ValueString (EnvironmentID data) \<noteq> [] \<and>
      CHR ''/'' \<notin> set (ValueString (EnvironmentID data)) \<and>
      ValueString (ProjectID data) \<noteq> []"
  then have "SplitN_slash_2 (composite_id data) =
             [ValueString (EnvironmentID data), ValueString (ProjectID data)]"
    unfolding composite_id_def by (intro SplitN_slash_2_joined) simp
  with a show "ImportState (composite_id data) =
          Inr \<lparr>import_id = composite_id data,
               import_environment_id = ValueString (EnvironmentID data),
               import_project_id = ValueString (ProjectID data)\<rparr>"
    by (simp add: ImportState_def)
next
  assume none: "\<nexists>e p. e \<noteq> [] \<and> p \<noteq> [] \<and> req_id = e @ ''/'' @ p"
  show "ImportState req_id =
          Inl (''Invalid import ID'',
               ''Expected format: environment_id/project_id, got: '' @ req_id)"
  proof (cases "CHR ''/'' \<in> set req_id")
    case False
    then show ?thesis by (simp add: ImportState_def SplitN_slash_2_def)
  next
    case True
    from SplitN_slash_2_rejoin [OF True] none
    have "takeWhile not_slash req_id = [] \<or> tl (dropWhile not_slash req_id) = []"
      by blast
    with True show ?thesis
      by (auto simp: ImportState_def SplitN_slash_2_def)
  qed
qed

theorem import_roundtrip_witness:
  "ID (the (new_state (the (Create pd_example world_third 0 plan_example)))) =
     Known ''env-1/proj-1''
   \<and> ImportState (composite_id record_example) =
     Inr \<lparr>import_id = ''env-1/proj-1'', import_environment_id = ''env-1'',
          import_project_id = ''proj-1''\<rparr>
   \<and> ImportState ''env-1'' =
       Inl (''Invalid import ID'', ''Expected format: environment_id/project_id, got: env-1'')"
proof -
  have no: "\<nexists>e p. e \<noteq> [] \<and> p \<noteq> [] \<and> ''env-1'' = e @ ''/'' @ p"
  proof
    assume "\<exists>e p. e \<noteq> [] \<and> p \<noteq> [] \<and> ''env-1'' = e @ ''/'' @ p"
    then obtain e p where "''env-1'' = e @ ''/'' @ p" by blast
    then have "set ''env-1'' = set (e @ ''/'' @ p)" by simp
    then have "CHR ''/'' \<in> set ''env-1''" by simp
    then show False by simp
  qed
  have t: "parseWaitTimeout pd_example plan_example = 2 * Minute"
    by (simp add: parseWaitTimeout_def pd_example_def plan_example_def record_example_def)
  have "\<exists>r st. Create pd_example world_third 0 plan_example = Some r \<and>
          new_state r = Some st"
    using t waitForAgent_world_third
    by (simp add: Create_def Let_def world_third_def)
  then obtain r st where r: "Create pd_example world_third 0 plan_example = Some r"
    and st: "new_state r = Some st" by blast
  with import_roundtrip [where data = plan_example and pd = pd_example and w = world_third
      and start = 0]
  have "ID st = Known ''env-1/proj-1''"
    by (simp add: plan_example_def record_example_def)
  with r st have created:
    "ID (the (new_state (the (Create pd_example world_third 0 plan_example)))) =
       Known ''env-1/proj-1''"
    by simp
  show ?thesis
    using import_roundtrip [where data = record_example and req_id = "''env-1''"] no created
    by (simp add: record_example_def composite_id_def)
qed

end
